theory Spec2Isabelle
  imports Main
begin

section \<open>The camera and QR-code pipeline of \<^verbatim>\<open>main.py\<close>\<close>

text \<open>
  The program drives three foreign libraries through pyjnius: the Android camera
  (\<^verbatim>\<open>android.hardware.Camera\<close>), the Android view hierarchy and the zbar decoder.
  The model keeps the Python objects as one record \<open>app\<close> (the \<^verbatim>\<open>ZbarQrcodeDetector\<close>,
  its \<^verbatim>\<open>AndroidCamera\<close> child and that widget's \<^verbatim>\<open>AndroidWidgetHolder\<close>), the Java
  camera object as a record \<open>camera\<close> held in \<^verbatim>\<open>_android_camera\<close>, and a \<open>trace\<close> of
  the calls made on Java objects, in program order. What the foreign code answers is a
  parameter, the record \<open>platform\<close>.

  Methods decorated with \<^verbatim>\<open>run_on_ui_thread\<close> are modelled as plain calls: the model is
  sequential.
\<close>

subsection \<open>Values\<close>

text \<open>A frame buffer is a Python 2 byte string.\<close>

type_synonym buffer = string

text \<open>
  The exceptions the model tracks: the \<^verbatim>\<open>AttributeError\<close> of a method call on \<^verbatim>\<open>None\<close>
  or of a missing attribute, and the \<^verbatim>\<open>JavaException\<close> pyjnius raises when a Java call
  throws.
\<close>

datatype error = AttributeError | JavaException string

text \<open>
  A method either returns or raises; in both cases the object state is what the
  method had made of it when it stopped.
\<close>

datatype 's res = Returned 's | Raised error 's

fun state_of :: "'s res \<Rightarrow> 's" where
  "state_of (Returned s) = s"
| "state_of (Raised e s) = s"

fun returned :: "'s res \<Rightarrow> bool" where
  "returned (Returned s) = True"
| "returned (Raised e s) = False"

text \<open>
  \<^verbatim>\<open>Camera.Parameters\<close>: the keys the program reads or writes. \<open>previewSize\<close> is
  (width, height), in the argument order of \<^verbatim>\<open>setPreviewSize\<close>.
\<close>

record parameters =
  previewSize :: "int \<times> int"
  previewFormat :: int
  focusMode :: string
  rotation :: int
  orientation :: string

text \<open>A \<^verbatim>\<open>SurfaceView\<close> object, named by its creation number.\<close>

datatype surface = SurfaceView nat

datatype callback = NoCallback | CallbackWithBuffer

text \<open>The Java camera object.\<close>

record camera =
  cam_parameters :: parameters
  displayOrientation :: int
  callbackBuffers :: "buffer list"
  cam_callback :: callback
  previewDisplay :: "surface option"
  previewing :: bool

text \<open>A symbol object of the decoder, read through its five getters.\<close>

record zsymbol =
  getType :: int
  getData :: string
  getQuality :: int
  getCount :: int
  getBounds :: "int list"

text \<open>
  The namedtuple \<^verbatim>\<open>Qrcode\<close> with fields \<^verbatim>\<open>type, data, bounds, quality, count\<close>
  (prefixed here, the plain words being needed as variable names).
\<close>

record Qrcode =
  qr_type :: int
  qr_data :: string
  qr_bounds :: "int list"
  qr_quality :: int
  qr_count :: int

text \<open>A zbar \<^verbatim>\<open>Image\<close>.\<close>

record image =
  img_width :: int
  img_height :: int
  img_format :: string
  img_data :: buffer

text \<open>
  The first argument of \<^verbatim>\<open>ImageScanner.setConfig\<close> is the literal \<^verbatim>\<open>0\<close> (every
  symbology) or the library constant \<^verbatim>\<open>Symbol.QRCODE\<close>; the second is one of three
  constants of \<^verbatim>\<open>Config\<close>. The library's numbers for them are not part of the program,
  so they stay symbolic.
\<close>

datatype symbology = Literal int | Symbol_QRCODE

datatype config = Config_ENABLE | Config_X_DENSITY | Config_Y_DENSITY

text \<open>An \<^verbatim>\<open>ImageScanner\<close> is the list of settings it has received, oldest first.\<close>

type_synonym scanner = "(symbology \<times> config \<times> int) list"

text \<open>The calls on Java objects that the trace records.\<close>

datatype jcall =
    Camera_open int
  | GetParameters
  | SetParameters parameters
  | SetDisplayOrientation int
  | AddCallbackBuffer buffer
  | SetPreviewCallback_None
  | SetPreviewCallbackWithBuffer
  | SetPreviewDisplay surface
  | StartPreview
  | Release
  | SurfaceView_new surface
  | AddCallback surface
  | RemoveView surface
  | AddContentView surface
  | SetZOrderOnTop surface
  | ImageScanner_new
  | SetConfig symbology config int
  | Image_new int int string
  | SetData buffer
  | Convert string
  | ScanImage
  | GetSymbols

text \<open>
  What the foreign code answers: \<open>Camera_open_ans\<close> is the device \<^verbatim>\<open>Camera.open(index)\<close>
  hands out (or the exception), \<open>accepts\<close> says whether \<^verbatim>\<open>setParameters\<close> takes a
  parameter set (the source's FIXME: an unsupported preview size makes it throw),
  \<open>getBitsPerPixel\<close> is \<^verbatim>\<open>ImageFormat.getBitsPerPixel\<close>, \<open>convert\<close> is
  \<^verbatim>\<open>Image.convert\<close>, and \<open>scanImage\<close> gives the return value of
  \<^verbatim>\<open>ImageScanner.scanImage\<close> with the symbols \<^verbatim>\<open>getSymbols()\<close> then enumerates.
\<close>

record platform =
  Camera_open_ans :: "int \<Rightarrow> error + camera"
  accepts :: "parameters \<Rightarrow> bool"
  getBitsPerPixel :: "int \<Rightarrow> int"
  convert :: "string \<Rightarrow> image \<Rightarrow> error + image"
  scanImage :: "scanner \<Rightarrow> image \<Rightarrow> error + (int \<times> zsymbol list)"

text \<open>
  The Python objects. \<open>android_camera\<close>, \<open>android_surface\<close>, \<open>android_surface_cb\<close>
  and \<open>previewCallback\<close> are the attributes \<^verbatim>\<open>_android_camera\<close>, \<^verbatim>\<open>_android_surface\<close>,
  \<^verbatim>\<open>_android_surface_cb\<close> and \<^verbatim>\<open>_previewCallback\<close> of \<^verbatim>\<open>AndroidCamera\<close> (\<open>None\<close> or
  \<open>False\<close> while the attribute does not exist); \<open>holder_view\<close> and \<open>holder_old_view\<close>
  are \<^verbatim>\<open>view\<close> and \<^verbatim>\<open>_old_view\<close> of the \<^verbatim>\<open>AndroidWidgetHolder\<close>; \<open>symbols\<close> and
  \<open>scanner\<close> belong to the \<^verbatim>\<open>ZbarQrcodeDetector\<close>.
\<close>

record app =
  index :: int
  android_camera :: "camera option"
  android_surface :: "surface option"
  android_surface_cb :: bool
  previewCallback :: bool
  holder_view :: "surface option"
  holder_old_view :: "surface option"
  symbols :: "Qrcode list"
  scanner :: scanner
  surfaces_created :: nat
  trace :: "jcall list"

definition log :: "jcall list \<Rightarrow> app \<Rightarrow> app" where
  "log cs s = s\<lparr>trace := trace s @ cs\<rparr>"

subsection \<open>AndroidWidgetHolder\<close>

text \<open>
  \<^verbatim>\<open>on_view\<close>: the old view is taken out of its layout, the new one is added as an
  overlay. The position and size passed to the view are layout values no claim reads;
  they are left out of the trace.
\<close>

definition on_view :: "surface option \<Rightarrow> app \<Rightarrow> app" where
  "on_view view s =
     (let s1 = (case holder_old_view s of
                  None \<Rightarrow> s
                | Some old \<Rightarrow> log [RemoveView old] (s\<lparr>holder_old_view := None\<rparr>))
      in case view of
           None \<Rightarrow> s1
         | Some v \<Rightarrow> (log [AddContentView v, SetZOrderOnTop v] s1)\<lparr>holder_old_view := Some v\<rparr>)"

text \<open>Assigning the Kivy property \<^verbatim>\<open>view\<close> runs \<^verbatim>\<open>on_view\<close> when the value changes.\<close>

definition set_view :: "surface option \<Rightarrow> app \<Rightarrow> app" where
  "set_view view s =
     (if holder_view s = view then s else on_view view (s\<lparr>holder_view := view\<rparr>))"

subsection \<open>AndroidCamera\<close>

definition AndroidCamera_stop :: "app \<Rightarrow> app" where
  "AndroidCamera_stop s =
     (case android_camera s of
        None \<Rightarrow> s
      | Some cam \<Rightarrow>
          set_view None
            ((log [SetPreviewCallback_None, Release] s)\<lparr>android_camera := None\<rparr>))"

definition AndroidCamera_start :: "platform \<Rightarrow> app \<Rightarrow> app res" where
  "AndroidCamera_start p s =
     (if android_camera s \<noteq> None then Returned s
      else case Camera_open_ans p (index s) of
        Inl e \<Rightarrow> Raised e (log [Camera_open (index s)] s)
      | Inr cam \<Rightarrow>
          (let params = (cam_parameters cam)
                 \<lparr>focusMode := ''continuous-picture'', rotation := 90,
                  orientation := ''portrait''\<rparr>;
               s1 = (log [Camera_open (index s), GetParameters, SetParameters params] s)
                      \<lparr>android_camera := Some cam\<rparr>
           in if \<not> accepts p params then Raised (JavaException ''setParameters failed'') s1
              else
                (let cam1 = cam\<lparr>cam_parameters := params, displayOrientation := 90\<rparr>;
                     surf = SurfaceView (surfaces_created s);
                     s2 = (log [SetDisplayOrientation 90, SurfaceView_new surf, AddCallback surf] s1)
                            \<lparr>android_camera := Some cam1,
                             android_surface := Some surf,
                             android_surface_cb := True,
                             surfaces_created := Suc (surfaces_created s)\<rparr>
                 in Returned (set_view (Some surf) s2))))"

subsubsection \<open>Python float arithmetic of the buffer size\<close>

text \<open>
  \<^verbatim>\<open>bpp = ImageFormat.getBitsPerPixel(...) / 8.\<close> and \<^verbatim>\<open>int(width * height * bpp)\<close>
  compute in IEEE doubles: 53 significant bits, round to nearest, ties to even. Every
  double that occurs is an integer multiple of 1/8, so a double is represented by its
  numerator over 8, and rounding the value is rounding the numerator (scaling by a power
  of two does not change the significand). The arguments are Java ints, which keeps all
  magnitudes inside the exponent range of a double; the range is not modelled.
\<close>

type_synonym eighths = int

text \<open>The number of binary digits of a positive integer.\<close>

function bit_length :: "int \<Rightarrow> nat" where
  "bit_length n = (if n \<le> 0 then 0 else Suc (bit_length (n div 2)))"
  by pat_completeness auto
termination
  by (relation "measure nat") auto

declare bit_length.simps [simp del]

text \<open>The integer nearest to \<open>k\<close> that has at most 53 significant bits.\<close>

definition round53 :: "int \<Rightarrow> int" where
  "round53 k =
     (if \<bar>k\<bar> < 2 ^ 53 then k
      else
        (let a = \<bar>k\<bar>;
             sh = bit_length a - 53;
             q = a div 2 ^ sh;
             r = a mod 2 ^ sh;
             half = 2 ^ (sh - 1);
             q' = (if half < r \<or> (r = half \<and> odd q) then q + 1 else q)
         in sgn k * (q' * 2 ^ sh)))"

text \<open>\<^verbatim>\<open>n / 8.\<close> for an int \<open>n\<close>: \<open>n\<close> becomes a double, the division by 8 is exact.\<close>

definition float_div8 :: "int \<Rightarrow> eighths" where
  "float_div8 n = round53 n"

text \<open>\<^verbatim>\<open>n * x\<close> for an int \<open>n\<close> and a float \<open>x\<close>: \<open>n\<close> becomes a double, the product is rounded.\<close>

definition int_times_float :: "int \<Rightarrow> eighths \<Rightarrow> eighths" where
  "int_times_float n x = round53 (round53 n * x)"

text \<open>\<^verbatim>\<open>int(x)\<close> truncates toward zero.\<close>

definition py_int :: "eighths \<Rightarrow> int" where
  "py_int x = sgn x * (\<bar>x\<bar> div 8)"

subsubsection \<open>The surface and frame callbacks\<close>

text \<open>
  \<^verbatim>\<open>_on_surface_changed\<close>, the target of \<^verbatim>\<open>SurfaceHolderCallback.surfaceChanged\<close>.
  \<^verbatim>\<open>'\x00' * n\<close> is the empty string for \<open>n \<le> 0\<close>, as \<open>replicate (nat n)\<close> is.
\<close>

definition on_surface_changed :: "platform \<Rightarrow> int \<Rightarrow> int \<Rightarrow> int \<Rightarrow> app \<Rightarrow> app res" where
  "on_surface_changed p fmt width height s =
     (case android_camera s of
        None \<Rightarrow> Raised AttributeError s
      | Some cam \<Rightarrow>
          (let params = (cam_parameters cam)\<lparr>previewSize := (height, width)\<rparr>;
               s1 = log [GetParameters, SetParameters params] s
           in if \<not> accepts p params then Raised (JavaException ''setParameters failed'') s1
              else
                (let bpp = float_div8 (getBitsPerPixel p (previewFormat params));
                     buf = replicate (nat (py_int (int_times_float (width * height) bpp))) (CHR 0x00);
                     cam1 = cam\<lparr>cam_parameters := params,
                                callbackBuffers := callbackBuffers cam @ [buf, buf],
                                cam_callback := CallbackWithBuffer\<rparr>;
                     s2 = (log [AddCallbackBuffer buf, AddCallbackBuffer buf,
                                SetPreviewCallbackWithBuffer] s1)
                            \<lparr>android_camera := Some cam1, previewCallback := True\<rparr>
                 in case android_surface s of
                      None \<Rightarrow> Raised AttributeError s2
                    | Some surf \<Rightarrow>
                        Returned ((log [SetPreviewDisplay surf, StartPreview] s2)
                          \<lparr>android_camera :=
                             Some (cam1\<lparr>previewDisplay := Some surf, previewing := True\<rparr>)\<rparr>))))"

subsection \<open>ZbarQrcodeDetector\<close>

definition setConfig :: "symbology \<Rightarrow> config \<Rightarrow> int \<Rightarrow> app \<Rightarrow> app" where
  "setConfig symb cfg v s =
     (log [SetConfig symb cfg v] s)\<lparr>scanner := scanner s @ [(symb, cfg, v)]\<rparr>"

text \<open>
  \<^verbatim>\<open>__init__\<close>: the widgets are created with the camera closed (\<^verbatim>\<open>index\<close> and
  \<^verbatim>\<open>symbols\<close> at their property defaults), then the scanner is created and configured.
\<close>

definition ZbarQrcodeDetector_init :: app where
  "ZbarQrcodeDetector_init =
     setConfig (Literal 0) Config_Y_DENSITY 3
       (setConfig (Literal 0) Config_X_DENSITY 3
         (setConfig Symbol_QRCODE Config_ENABLE 1
           (setConfig (Literal 0) Config_ENABLE 0
             \<lparr>index = 0, android_camera = None, android_surface = None,
              android_surface_cb = False, previewCallback = False,
              holder_view = None, holder_old_view = None,
              symbols = [], scanner = [], surfaces_created = 0,
              trace = [ImageScanner_new]\<rparr>)))"

definition ZbarQrcodeDetector_start :: "platform \<Rightarrow> app \<Rightarrow> app res" where
  "ZbarQrcodeDetector_start p s = AndroidCamera_start p s"

definition ZbarQrcodeDetector_stop :: "app \<Rightarrow> app" where
  "ZbarQrcodeDetector_stop s = AndroidCamera_stop (s\<lparr>symbols := []\<rparr>)"

text \<open>
  The loop of \<^verbatim>\<open>_detect_qrcode_frame\<close> over the iterator of \<^verbatim>\<open>barcode.getSymbols()\<close>:
  the first argument is what the iterator still holds, the second (\<open>found\<close>) the local list \<^verbatim>\<open>symbols\<close>
  built so far.
\<close>

fun extract_symbols :: "zsymbol list \<Rightarrow> Qrcode list \<Rightarrow> Qrcode list" where
  "extract_symbols [] found = found"
| "extract_symbols (symbol # it) found =
     extract_symbols it (found @
       [\<lparr>qr_type = getType symbol, qr_data = getData symbol, qr_bounds = getBounds symbol,
         qr_quality = getQuality symbol, qr_count = getCount symbol\<rparr>])"

definition detect_qrcode_frame :: "platform \<Rightarrow> camera \<Rightarrow> buffer \<Rightarrow> app \<Rightarrow> app res" where
  "detect_qrcode_frame p camera data s =
     (let psize = previewSize (cam_parameters camera);
          barcode = \<lparr>img_width = fst psize, img_height = snd psize,
                     img_format = ''NV21'', img_data = []\<rparr>;
          barcode = barcode\<lparr>img_data := data\<rparr>;
          s1 = log [GetParameters, Image_new (fst psize) (snd psize) ''NV21'', SetData data,
                    Convert ''Y800''] s
      in case convert p ''Y800'' barcode of
           Inl e \<Rightarrow> Raised e s1
         | Inr barcode \<Rightarrow>
             (case scanImage p (scanner s) barcode of
                Inl e \<Rightarrow> Raised e (log [ScanImage] s1)
              | Inr (result, syms) \<Rightarrow>
                  if result = 0 then Returned (log [ScanImage] s1)
                  else Returned ((log [ScanImage, GetSymbols] s1)\<lparr>symbols := extract_symbols syms []\<rparr>)))"

text \<open>
  \<^verbatim>\<open>AndroidCamera._on_preview_frame\<close>. The event \<^verbatim>\<open>on_preview_frame\<close> is bound to
  \<^verbatim>\<open>_detect_qrcode_frame\<close> in \<^verbatim>\<open>ZbarQrcodeDetector.__init__\<close>; the widget's own handler
  of that name is \<^verbatim>\<open>pass\<close>.
\<close>

definition on_preview_frame :: "platform \<Rightarrow> camera \<Rightarrow> buffer \<Rightarrow> app \<Rightarrow> app res" where
  "on_preview_frame p camera data s =
     (case detect_qrcode_frame p camera data s of
        Raised e s1 \<Rightarrow> Raised e s1
      | Returned s1 \<Rightarrow>
          (case android_camera s1 of
             None \<Rightarrow> Raised AttributeError s1
           | Some cam \<Rightarrow>
               Returned ((log [AddCallbackBuffer data] s1)
                 \<lparr>android_camera := Some (cam\<lparr>callbackBuffers := callbackBuffers cam @ [data]\<rparr>)\<rparr>)))"

subsection \<open>The environment\<close>

text \<open>
  What happens to the program from outside, one event at a time: the application calls
  \<^verbatim>\<open>start\<close> or \<^verbatim>\<open>stop\<close> on the detector, the surface on display reports a change to the
  registered \<^verbatim>\<open>SurfaceHolderCallback\<close>, or the camera delivers a frame to the registered
  \<^verbatim>\<open>PreviewCallback\<close>. The camera follows the callback-buffer contract of
  \<^verbatim>\<open>android.hardware.Camera\<close>: a frame is delivered only while the preview runs with a
  callback and a buffer in the queue, and delivering it takes that buffer out of the
  queue. An exception leaves the state as the failing method left it; the run goes on
  from there, which covers a caller that gives up (every shorter run is a run).
\<close>

datatype event = Start | Stop | SurfaceChanged int int int | PreviewFrame buffer

fun step :: "platform \<Rightarrow> app \<Rightarrow> event \<Rightarrow> app" where
  "step p s Start = state_of (ZbarQrcodeDetector_start p s)"
| "step p s Stop = ZbarQrcodeDetector_stop s"
| "step p s (SurfaceChanged fmt width height) =
     (if android_surface_cb s \<and> holder_view s \<noteq> None
      then state_of (on_surface_changed p fmt width height s) else s)"
| "step p s (PreviewFrame data) =
     (case android_camera s of
        None \<Rightarrow> s
      | Some cam \<Rightarrow>
          if previewing cam \<and> cam_callback cam = CallbackWithBuffer \<and> callbackBuffers cam \<noteq> []
          then (let cam1 = cam\<lparr>callbackBuffers := tl (callbackBuffers cam)\<rparr>
                in state_of (on_preview_frame p cam1 data (s\<lparr>android_camera := Some cam1\<rparr>)))
          else s)"

definition run :: "platform \<Rightarrow> event list \<Rightarrow> app \<Rightarrow> app" where
  "run p evs s = foldl (step p) s evs"

text \<open>The number of buffers the camera holds for coming frames.\<close>

definition pool :: "app \<Rightarrow> nat" where
  "pool s = (case android_camera s of None \<Rightarrow> 0 | Some cam \<Rightarrow> length (callbackBuffers cam))"

subsection \<open>A concrete platform and concrete frames\<close>

text \<open>
  A device whose preview defaults to 640 by 480 in format 17 (12 bits per pixel), that
  takes every parameter set, and a decoder that finds nothing in an empty frame, fails on
  a frame starting with \<^verbatim>\<open>!\<close>, and otherwise finds one symbol per byte of the frame.
  The states are those of a detector that has been started (\<open>demo_open\<close>) and whose
  surface has then reported 4 by 2 pixels (\<open>demo_streaming\<close>).
\<close>

definition demo_camera :: camera where
  "demo_camera =
     \<lparr>cam_parameters = \<lparr>previewSize = (640, 480), previewFormat = 17, focusMode = ''auto'',
                        rotation = 0, orientation = ''landscape''\<rparr>,
      displayOrientation = 0, callbackBuffers = [], cam_callback = NoCallback,
      previewDisplay = None, previewing = False\<rparr>"

definition demo_symbol :: "char \<Rightarrow> zsymbol" where
  "demo_symbol c =
     \<lparr>getType = 64, getData = [c], getQuality = 1, getCount = 0, getBounds = [0, 0, 8, 8]\<rparr>"

definition demo_scan :: "scanner \<Rightarrow> image \<Rightarrow> error + (int \<times> zsymbol list)" where
  "demo_scan sc img =
     (case img_data img of
        [] \<Rightarrow> Inr (0, [])
      | c # cs \<Rightarrow>
          if c = CHR ''!'' then Inl (JavaException ''scan failed'')
          else Inr (int (length (img_data img)), map demo_symbol (img_data img)))"

definition demo :: platform where
  "demo =
     \<lparr>Camera_open_ans = (\<lambda>i. Inr demo_camera),
      accepts = (\<lambda>ps. True),
      getBitsPerPixel = (\<lambda>f. if f = 17 then 12 else - 1),
      convert = (\<lambda>f img. Inr (img\<lparr>img_format := f\<rparr>)),
      scanImage = demo_scan\<rparr>"

text \<open>The same device, refusing every parameter set.\<close>

definition demo_refusing :: platform where
  "demo_refusing = demo\<lparr>accepts := (\<lambda>ps. False)\<rparr>"

definition demo_open :: app where
  "demo_open = run demo [Start] ZbarQrcodeDetector_init"

definition demo_streaming :: app where
  "demo_streaming = run demo [Start, SurfaceChanged 1 4 2] ZbarQrcodeDetector_init"

definition demo_open_camera :: camera where
  "demo_open_camera =
     \<lparr>cam_parameters = \<lparr>previewSize = (640, 480), previewFormat = 17,
                        focusMode = ''continuous-picture'', rotation = 90,
                        orientation = ''portrait''\<rparr>,
      displayOrientation = 90, callbackBuffers = [], cam_callback = NoCallback,
      previewDisplay = None, previewing = False\<rparr>"

definition demo_streaming_camera :: camera where
  "demo_streaming_camera =
     \<lparr>cam_parameters = \<lparr>previewSize = (2, 4), previewFormat = 17,
                        focusMode = ''continuous-picture'', rotation = 90,
                        orientation = ''portrait''\<rparr>,
      displayOrientation = 90,
      callbackBuffers = [replicate 12 (CHR 0x00), replicate 12 (CHR 0x00)],
      cam_callback = CallbackWithBuffer,
      previewDisplay = Some (SurfaceView 0), previewing = True\<rparr>"

subsection \<open>Notions the statements use\<close>

text \<open>The calls made between an earlier state and a later one.\<close>

definition calls_since :: "app \<Rightarrow> app \<Rightarrow> jcall list" where
  "calls_since s s' = drop (length (trace s)) (trace s')"

text \<open>The buffers handed to \<^verbatim>\<open>addCallbackBuffer\<close> in a list of calls, in order.\<close>

fun submitted :: "jcall list \<Rightarrow> buffer list" where
  "submitted [] = []"
| "submitted (AddCallbackBuffer b # cs) = b # submitted cs"
| "submitted (c # cs) = submitted cs"

text \<open>The settings passed to \<^verbatim>\<open>setConfig\<close> in a list of calls, in order.\<close>

fun configured :: "jcall list \<Rightarrow> (symbology \<times> config \<times> int) list" where
  "configured [] = []"
| "configured (SetConfig symb cfg v # cs) = (symb, cfg, v) # configured cs"
| "configured (c # cs) = configured cs"

text \<open>
  What the decoder answers for a frame: the result of the conversion and scan that
  \<^verbatim>\<open>_detect_qrcode_frame\<close> performs on it.
\<close>

definition decoder_answer ::
  "platform \<Rightarrow> camera \<Rightarrow> buffer \<Rightarrow> app \<Rightarrow> error + (int \<times> zsymbol list)" where
  "decoder_answer p camera data s =
     (case convert p ''Y800''
             \<lparr>img_width = fst (previewSize (cam_parameters camera)),
              img_height = snd (previewSize (cam_parameters camera)),
              img_format = ''NV21'', img_data = data\<rparr> of
        Inl e \<Rightarrow> Inl e
      | Inr barcode \<Rightarrow> scanImage p (scanner s) barcode)"


section \<open>Properties\<close>

subsection \<open>What each method leaves unchanged\<close>

lemma log_simps [simp]:
  "trace (log cs s) = trace s @ cs"
  "symbols (log cs s) = symbols s"
  "scanner (log cs s) = scanner s"
  "android_camera (log cs s) = android_camera s"
  "android_surface (log cs s) = android_surface s"
  "holder_view (log cs s) = holder_view s"
  "holder_old_view (log cs s) = holder_old_view s"
  by (simp_all add: log_def)

lemma submitted_append: "submitted (xs @ ys) = submitted xs @ submitted ys"
  by (induction xs rule: submitted.induct) simp_all

lemma configured_append: "configured (xs @ ys) = configured xs @ configured ys"
  by (induction xs rule: configured.induct) simp_all

lemma calls_since_append [simp]: "trace s' = trace s @ cs \<Longrightarrow> calls_since s s' = cs"
  by (simp add: calls_since_def)

lemma on_view_frame:
  "symbols (on_view v s) = symbols s"
  "scanner (on_view v s) = scanner s"
  "android_camera (on_view v s) = android_camera s"
  "configured (trace (on_view v s)) = configured (trace s)"
  by (simp_all add: on_view_def Let_def configured_append split: option.splits)

lemma set_view_frame:
  "symbols (set_view v s) = symbols s"
  "scanner (set_view v s) = scanner s"
  "android_camera (set_view v s) = android_camera s"
  "configured (trace (set_view v s)) = configured (trace s)"
  by (simp_all add: set_view_def on_view_frame)

lemma AndroidCamera_stop_frame:
  "symbols (AndroidCamera_stop s) = symbols s"
  "scanner (AndroidCamera_stop s) = scanner s"
  "android_camera (AndroidCamera_stop s) = None"
  "configured (trace (AndroidCamera_stop s)) = configured (trace s)"
  by (simp_all add: AndroidCamera_stop_def set_view_frame configured_append split: option.splits)

lemma AndroidCamera_stop_closed: "android_camera s = None \<Longrightarrow> AndroidCamera_stop s = s"
  by (simp add: AndroidCamera_stop_def)

lemma AndroidCamera_start_frame:
  "symbols (state_of (AndroidCamera_start p s)) = symbols s"
  "scanner (state_of (AndroidCamera_start p s)) = scanner s"
  "configured (trace (state_of (AndroidCamera_start p s))) = configured (trace s)"
  by (simp_all add: AndroidCamera_start_def Let_def set_view_frame configured_append
      split: sum.splits)

lemma extract_symbols_map:
  "extract_symbols syms found =
     found @ map (\<lambda>symbol. \<lparr>qr_type = getType symbol, qr_data = getData symbol,
                              qr_bounds = getBounds symbol, qr_quality = getQuality symbol,
                              qr_count = getCount symbol\<rparr>) syms"
  by (induction syms arbitrary: found) simp_all

lemma detect_symbols:
  "symbols (state_of (detect_qrcode_frame p camera data s)) =
     (case decoder_answer p camera data s of
        Inl e \<Rightarrow> symbols s
      | Inr (result, syms) \<Rightarrow>
          if result = 0 then symbols s
          else map (\<lambda>symbol. \<lparr>qr_type = getType symbol, qr_data = getData symbol,
                              qr_bounds = getBounds symbol, qr_quality = getQuality symbol,
                              qr_count = getCount symbol\<rparr>) syms)"
  by (simp add: detect_qrcode_frame_def decoder_answer_def Let_def extract_symbols_map
      split: sum.splits prod.splits)

lemma detect_returned:
  "returned (detect_qrcode_frame p camera data s) =
     (case decoder_answer p camera data s of Inl e \<Rightarrow> False | Inr a \<Rightarrow> True)"
  by (simp add: detect_qrcode_frame_def decoder_answer_def Let_def
      split: sum.splits prod.splits)

lemma detect_frame:
  "scanner (state_of (detect_qrcode_frame p camera data s)) = scanner s"
  "android_camera (state_of (detect_qrcode_frame p camera data s)) = android_camera s"
  by (simp_all add: detect_qrcode_frame_def Let_def split: sum.splits prod.splits)

lemma detect_calls:
  "\<exists>cs. trace (state_of (detect_qrcode_frame p camera data s)) =
          trace s @ [GetParameters,
                     Image_new (fst (previewSize (cam_parameters camera)))
                               (snd (previewSize (cam_parameters camera))) ''NV21''] @ cs
        \<and> submitted cs = [] \<and> configured cs = []"
  by (simp add: detect_qrcode_frame_def Let_def split: sum.splits prod.splits)


lemma on_preview_frame_frame:
  "scanner (state_of (on_preview_frame p camera data s)) = scanner s"
  "configured (trace (state_of (on_preview_frame p camera data s))) = configured (trace s)"
proof -
  obtain cs where cs:
    "trace (state_of (detect_qrcode_frame p camera data s)) =
       trace s @ [GetParameters,
                  Image_new (fst (previewSize (cam_parameters camera)))
                            (snd (previewSize (cam_parameters camera))) ''NV21''] @ cs"
    "configured cs = []"
    using detect_calls [of p camera data s] by blast
  show "scanner (state_of (on_preview_frame p camera data s)) = scanner s"
    using detect_frame(1) [of p camera data s]
    by (cases "detect_qrcode_frame p camera data s")
       (simp_all add: on_preview_frame_def split: option.splits)
  show "configured (trace (state_of (on_preview_frame p camera data s))) = configured (trace s)"
    using cs
    by (cases "detect_qrcode_frame p camera data s")
       (simp_all add: on_preview_frame_def configured_append split: option.splits)
qed

lemma on_surface_changed_frame:
  "symbols (state_of (on_surface_changed p fmt width height s)) = symbols s"
  "scanner (state_of (on_surface_changed p fmt width height s)) = scanner s"
  "configured (trace (state_of (on_surface_changed p fmt width height s))) = configured (trace s)"
  by (simp_all add: on_surface_changed_def Let_def configured_append split: option.splits)

lemma step_scanner: "scanner (step p s ev) = scanner s"
  by (cases ev)
     (simp_all add: ZbarQrcodeDetector_start_def ZbarQrcodeDetector_stop_def
        AndroidCamera_start_frame AndroidCamera_stop_frame on_surface_changed_frame
        on_preview_frame_frame Let_def split: option.splits)

lemma step_configured: "configured (trace (step p s ev)) = configured (trace s)"
  by (cases ev)
     (simp_all add: ZbarQrcodeDetector_start_def ZbarQrcodeDetector_stop_def
        AndroidCamera_start_frame AndroidCamera_stop_frame on_surface_changed_frame
        on_preview_frame_frame Let_def split: option.splits)

lemma run_scanner: "scanner (run p evs s) = scanner s"
  unfolding run_def by (induction evs arbitrary: s) (simp_all add: step_scanner)

lemma run_configured: "configured (trace (run p evs s)) = configured (trace s)"
  unfolding run_def by (induction evs arbitrary: s) (simp_all add: step_configured)


subsection \<open>The concrete states\<close>

lemma init_eq:
  "ZbarQrcodeDetector_init =
     \<lparr>index = 0, android_camera = None, android_surface = None,
      android_surface_cb = False, previewCallback = False,
      holder_view = None, holder_old_view = None,
      symbols = [],
      scanner = [(Literal 0, Config_ENABLE, 0), (Symbol_QRCODE, Config_ENABLE, 1),
                 (Literal 0, Config_X_DENSITY, 3), (Literal 0, Config_Y_DENSITY, 3)],
      surfaces_created = 0,
      trace = [ImageScanner_new, SetConfig (Literal 0) Config_ENABLE 0,
               SetConfig Symbol_QRCODE Config_ENABLE 1,
               SetConfig (Literal 0) Config_X_DENSITY 3,
               SetConfig (Literal 0) Config_Y_DENSITY 3]\<rparr>"
  by (simp add: ZbarQrcodeDetector_init_def setConfig_def log_def)

lemma demo_buffer_length: "py_int (int_times_float 8 (float_div8 12)) = 12"
  by (simp add: py_int_def int_times_float_def float_div8_def round53_def)

lemma demo_streaming_eq:
  "demo_streaming =
     \<lparr>index = 0, android_camera = Some demo_streaming_camera,
      android_surface = Some (SurfaceView 0),
      android_surface_cb = True, previewCallback = True,
      holder_view = Some (SurfaceView 0), holder_old_view = Some (SurfaceView 0),
      symbols = [],
      scanner = [(Literal 0, Config_ENABLE, 0), (Symbol_QRCODE, Config_ENABLE, 1),
                 (Literal 0, Config_X_DENSITY, 3), (Literal 0, Config_Y_DENSITY, 3)],
      surfaces_created = 1,
      trace = [ImageScanner_new, SetConfig (Literal 0) Config_ENABLE 0,
               SetConfig Symbol_QRCODE Config_ENABLE 1,
               SetConfig (Literal 0) Config_X_DENSITY 3,
               SetConfig (Literal 0) Config_Y_DENSITY 3,
               Camera_open 0, GetParameters,
               SetParameters ((cam_parameters demo_camera)
                 \<lparr>focusMode := ''continuous-picture'', rotation := 90,
                  orientation := ''portrait''\<rparr>),
               SetDisplayOrientation 90, SurfaceView_new (SurfaceView 0),
               AddCallback (SurfaceView 0), AddContentView (SurfaceView 0),
               SetZOrderOnTop (SurfaceView 0),
               GetParameters, SetParameters (cam_parameters demo_streaming_camera),
               AddCallbackBuffer (replicate 12 (CHR 0x00)),
               AddCallbackBuffer (replicate 12 (CHR 0x00)),
               SetPreviewCallbackWithBuffer, SetPreviewDisplay (SurfaceView 0),
               StartPreview]\<rparr>"
  unfolding demo_streaming_def run_def
  by (simp add: init_eq ZbarQrcodeDetector_start_def AndroidCamera_start_def
      on_surface_changed_def set_view_def on_view_def log_def demo_def demo_camera_def
      demo_streaming_camera_def demo_buffer_length Let_def)


lemma demo_open_eq:
  "demo_open =
     \<lparr>index = 0, android_camera = Some demo_open_camera,
      android_surface = Some (SurfaceView 0),
      android_surface_cb = True, previewCallback = False,
      holder_view = Some (SurfaceView 0), holder_old_view = Some (SurfaceView 0),
      symbols = [],
      scanner = [(Literal 0, Config_ENABLE, 0), (Symbol_QRCODE, Config_ENABLE, 1),
                 (Literal 0, Config_X_DENSITY, 3), (Literal 0, Config_Y_DENSITY, 3)],
      surfaces_created = 1,
      trace = [ImageScanner_new, SetConfig (Literal 0) Config_ENABLE 0,
               SetConfig Symbol_QRCODE Config_ENABLE 1,
               SetConfig (Literal 0) Config_X_DENSITY 3,
               SetConfig (Literal 0) Config_Y_DENSITY 3,
               Camera_open 0, GetParameters,
               SetParameters (cam_parameters demo_open_camera),
               SetDisplayOrientation 90, SurfaceView_new (SurfaceView 0),
               AddCallback (SurfaceView 0), AddContentView (SurfaceView 0),
               SetZOrderOnTop (SurfaceView 0)]\<rparr>"
  unfolding demo_open_def run_def
  by (simp add: init_eq ZbarQrcodeDetector_start_def AndroidCamera_start_def
      set_view_def on_view_def log_def demo_def demo_camera_def
      demo_open_camera_def Let_def)

subsection \<open>Buffer size arithmetic\<close>

lemma round53_small: "\<bar>k\<bar> < 2 ^ 53 \<Longrightarrow> round53 k = k"
  by (simp add: round53_def)

lemma float_product_exact:
  assumes "\<bar>n * b\<bar> < 2 ^ 53"
  shows "int_times_float n (float_div8 b) = n * b"
proof (cases "n = 0 \<or> b = 0")
  case True
  then show ?thesis
    by (auto simp add: int_times_float_def float_div8_def round53_small)
next
  case False
  then have "1 \<le> \<bar>n\<bar>" and "1 \<le> \<bar>b\<bar>" by auto
  then have "\<bar>n\<bar> * 1 \<le> \<bar>n\<bar> * \<bar>b\<bar>" and "1 * \<bar>b\<bar> \<le> \<bar>n\<bar> * \<bar>b\<bar>"
    by (intro mult_left_mono mult_right_mono; simp)+
  with assms have "\<bar>n\<bar> < 2 ^ 53" and "\<bar>b\<bar> < 2 ^ 53"
    by (simp_all add: abs_mult)
  with assms show ?thesis
    by (simp add: int_times_float_def float_div8_def round53_small)
qed

lemma py_int_nonneg: "0 \<le> x \<Longrightarrow> py_int x = x div 8"
  by (cases "x = 0") (simp_all add: py_int_def)

subsection \<open>Frame delivery and the pool\<close>











subsection \<open>The callbacks, step by step\<close>

lemma symbols_already_empty: "symbols t = [] \<Longrightarrow> t\<lparr>symbols := []\<rparr> = t"
  by (cases t) simp

lemma on_surface_changed_open:
  assumes "android_camera s = Some cam"
    and "accepts p ((cam_parameters cam)\<lparr>previewSize := (height, width)\<rparr>)"
    and "android_surface s = Some surf"
    and "buf = replicate (nat (py_int (int_times_float (width * height)
            (float_div8 (getBitsPerPixel p (previewFormat (cam_parameters cam))))))) (CHR 0x00)"
  shows "on_surface_changed p fmt width height s =
     Returned (s\<lparr>trace := trace s @
                    [GetParameters,
                     SetParameters ((cam_parameters cam)\<lparr>previewSize := (height, width)\<rparr>),
                     AddCallbackBuffer buf, AddCallbackBuffer buf,
                     SetPreviewCallbackWithBuffer, SetPreviewDisplay surf, StartPreview],
                 android_camera :=
                   Some (cam\<lparr>cam_parameters := (cam_parameters cam)\<lparr>previewSize := (height, width)\<rparr>,
                            callbackBuffers := callbackBuffers cam @ [buf, buf],
                            cam_callback := CallbackWithBuffer,
                            previewDisplay := Some surf, previewing := True\<rparr>),
                 previewCallback := True\<rparr>)"
  using assms by (simp add: on_surface_changed_def Let_def log_def)

lemma demo_answer:
  "decoder_answer demo demo_streaming_camera data s = demo_scan (scanner s)
     \<lparr>img_width = 2, img_height = 4, img_format = ''Y800'', img_data = data\<rparr>"
  by (simp add: decoder_answer_def demo_def demo_streaming_camera_def)

lemma demo_frame_A:
  "run demo [PreviewFrame ''A''] demo_streaming =
     demo_streaming
       \<lparr>android_camera :=
          Some (demo_streaming_camera\<lparr>callbackBuffers := [replicate 12 (CHR 0x00), ''A'']\<rparr>),
        symbols := [\<lparr>qr_type = 64, qr_data = ''A'', qr_bounds = [0, 0, 8, 8],
                     qr_quality = 1, qr_count = 0\<rparr>],
        trace := trace demo_streaming @
                   [GetParameters, Image_new 2 4 ''NV21'', SetData ''A'', Convert ''Y800'',
                    ScanImage, GetSymbols, AddCallbackBuffer ''A'']\<rparr>"
  unfolding run_def
  by (simp add: demo_streaming_eq demo_streaming_camera_def on_preview_frame_def
      detect_qrcode_frame_def demo_def demo_scan_def demo_symbol_def log_def Let_def)

lemma on_preview_frame_returned:
  assumes "returned (on_preview_frame p camera data s)"
  shows "returned (detect_qrcode_frame p camera data s)"
    and "trace (state_of (on_preview_frame p camera data s)) =
           trace (state_of (detect_qrcode_frame p camera data s)) @ [AddCallbackBuffer data]"
proof -
  show "returned (detect_qrcode_frame p camera data s)"
    using assms
    by (cases "detect_qrcode_frame p camera data s")
       (simp_all add: on_preview_frame_def split: option.splits)
  show "trace (state_of (on_preview_frame p camera data s)) =
           trace (state_of (detect_qrcode_frame p camera data s)) @ [AddCallbackBuffer data]"
    using assms
    by (cases "detect_qrcode_frame p camera data s")
       (simp_all add: on_preview_frame_def split: option.splits)
qed

lemma on_preview_frame_raised:
  assumes "\<not> returned (on_preview_frame p camera data s)"
  shows "trace (state_of (on_preview_frame p camera data s)) =
           trace (state_of (detect_qrcode_frame p camera data s))"
  using assms
  by (cases "detect_qrcode_frame p camera data s")
     (simp_all add: on_preview_frame_def split: option.splits)

lemma on_preview_frame_returns_iff:
  "returned (on_preview_frame p camera data s) =
     (returned (detect_qrcode_frame p camera data s) \<and> android_camera s \<noteq> None)"
  using detect_frame(2) [of p camera data s]
  by (cases "detect_qrcode_frame p camera data s")
     (auto simp add: on_preview_frame_def split: option.splits)

lemma detect_appends:
  "\<exists>cs. trace (state_of (detect_qrcode_frame p camera data s)) = trace s @ cs
        \<and> submitted cs = []"
  using detect_calls [of p camera data s] by auto

section \<open>The claims\<close>

text \<open>
  C1, as stated, fails. The claim: every decode pass replaces the published symbols, a
  pass that detects nothing replaces them by the empty list, so that two passes producing
  \<open>[A]\<close> then \<open>[]\<close> leave \<open>[]\<close> published. On the streaming detector a frame holding
  one symbol publishes that symbol; the next frame holds none (the decoder answers 0),
  \<^verbatim>\<open>_detect_qrcode_frame\<close> returns at \<^verbatim>\<open>if result == 0\<close>, and the symbol of the first
  frame is still published.
\<close>

theorem empty_detection_keeps_published_symbols:
  "symbols (run demo [PreviewFrame ''A''] demo_streaming) =
     [\<lparr>qr_type = 64, qr_data = ''A'', qr_bounds = [0, 0, 8, 8], qr_quality = 1, qr_count = 0\<rparr>]
   \<and> decoder_answer demo demo_streaming_camera [] (run demo [PreviewFrame ''A''] demo_streaming) =
       Inr (0, [])
   \<and> symbols (run demo [PreviewFrame ''A'', PreviewFrame []] demo_streaming) =
       [\<lparr>qr_type = 64, qr_data = ''A'', qr_bounds = [0, 0, 8, 8], qr_quality = 1, qr_count = 0\<rparr>]
   \<and> symbols (run demo [PreviewFrame ''A'', PreviewFrame []] demo_streaming) \<noteq> []"
proof -
  have second: "run demo [PreviewFrame ''A'', PreviewFrame []] demo_streaming =
      step demo (run demo [PreviewFrame ''A''] demo_streaming) (PreviewFrame [])"
    by (simp add: run_def)
  have "symbols (step demo (run demo [PreviewFrame ''A''] demo_streaming) (PreviewFrame [])) =
      [\<lparr>qr_type = 64, qr_data = ''A'', qr_bounds = [0, 0, 8, 8], qr_quality = 1, qr_count = 0\<rparr>]"
    unfolding demo_frame_A
    by (simp add: demo_streaming_eq demo_streaming_camera_def on_preview_frame_def
        detect_qrcode_frame_def demo_def demo_scan_def log_def Let_def)
  then show ?thesis
    unfolding second
    by (simp add: demo_frame_A demo_answer demo_scan_def)
qed

text \<open>
  C1, amended: a decode pass in which the decoder reports a nonzero count replaces the
  published list by the symbols of that frame alone (nothing of the old list is kept,
  nothing is appended to it); a pass in which the decoder reports zero leaves the
  published list as it was. After two passes producing \<open>[A]\<close> then \<open>[]\<close> the published
  list is \<open>[A]\<close>.
\<close>

theorem publication_replaces_only_on_detection:
  assumes "decoder_answer p camera data s = Inr (result, syms)"
  shows "symbols (state_of (detect_qrcode_frame p camera data s)) =
           (if result = 0 then symbols s
            else map (\<lambda>symbol. \<lparr>qr_type = getType symbol, qr_data = getData symbol,
                                    qr_bounds = getBounds symbol, qr_quality = getQuality symbol,
                                    qr_count = getCount symbol\<rparr>) syms)"
  using assms by (simp add: detect_symbols)

theorem publication_replaces_only_on_detection_witness:
  "decoder_answer demo demo_streaming_camera ''B'' (run demo [PreviewFrame ''A''] demo_streaming) =
     Inr (1, [demo_symbol (CHR ''B'')])
   \<and> symbols (run demo [PreviewFrame ''A''] demo_streaming) =
       [\<lparr>qr_type = 64, qr_data = ''A'', qr_bounds = [0, 0, 8, 8], qr_quality = 1, qr_count = 0\<rparr>]
   \<and> symbols (state_of (detect_qrcode_frame demo demo_streaming_camera ''B''
                 (run demo [PreviewFrame ''A''] demo_streaming))) =
       [\<lparr>qr_type = 64, qr_data = ''B'', qr_bounds = [0, 0, 8, 8], qr_quality = 1, qr_count = 0\<rparr>]"
proof -
  have answer: "decoder_answer demo demo_streaming_camera ''B''
      (run demo [PreviewFrame ''A''] demo_streaming) = Inr (1, [demo_symbol (CHR ''B'')])"
    by (simp add: demo_answer demo_scan_def)
  from publication_replaces_only_on_detection [OF answer] answer
  show ?thesis
    by (simp add: demo_symbol_def) (simp add: demo_frame_A)
qed

text \<open>
  C2, as stated, fails. The claim: a surface-change notification that arrives when the
  session is already streaming does not run the camera-configuration, buffer-allocation
  and \<^verbatim>\<open>startPreview\<close> sequence again. \<^verbatim>\<open>surfaceChanged\<close> calls \<^verbatim>\<open>_on_surface_changed\<close>
  with no test of the session's state: on the streaming detector a second notification
  makes the whole sequence of calls once more.
\<close>

theorem second_surface_change_streams_again:
  "android_camera demo_streaming = Some demo_streaming_camera
   \<and> previewing demo_streaming_camera
   \<and> calls_since demo_streaming (step demo demo_streaming (SurfaceChanged 1 4 2)) =
       [GetParameters, SetParameters (cam_parameters demo_streaming_camera),
        AddCallbackBuffer (replicate 12 (CHR 0x00)), AddCallbackBuffer (replicate 12 (CHR 0x00)),
        SetPreviewCallbackWithBuffer, SetPreviewDisplay (SurfaceView 0), StartPreview]
   \<and> calls_since demo_streaming (step demo demo_streaming (SurfaceChanged 1 4 2)) \<noteq> []"
proof -
  have cam: "android_camera demo_streaming = Some demo_streaming_camera"
    by (simp add: demo_streaming_eq)
  have acc: "accepts demo ((cam_parameters demo_streaming_camera)\<lparr>previewSize := (2, 4)\<rparr>)"
    by (simp add: demo_def)
  have surf: "android_surface demo_streaming = Some (SurfaceView 0)"
    by (simp add: demo_streaming_eq)
  have buf: "replicate 12 (CHR 0x00) = replicate (nat (py_int (int_times_float (4 * 2)
      (float_div8 (getBitsPerPixel demo (previewFormat (cam_parameters demo_streaming_camera)))))))
      (CHR 0x00)"
    by (simp add: demo_def demo_streaming_camera_def demo_buffer_length)
  have same: "(cam_parameters demo_streaming_camera)\<lparr>previewSize := (2, 4)\<rparr> =
      cam_parameters demo_streaming_camera"
    by (simp add: demo_streaming_camera_def)
  have registered: "android_surface_cb demo_streaming \<and> holder_view demo_streaming \<noteq> None"
    by (simp add: demo_streaming_eq)
  have "calls_since demo_streaming (step demo demo_streaming (SurfaceChanged 1 4 2)) =
      [GetParameters, SetParameters (cam_parameters demo_streaming_camera),
       AddCallbackBuffer (replicate 12 (CHR 0x00)), AddCallbackBuffer (replicate 12 (CHR 0x00)),
       SetPreviewCallbackWithBuffer, SetPreviewDisplay (SurfaceView 0), StartPreview]"
    using registered
    by (simp add: on_surface_changed_open [OF cam acc surf buf] same)
  then show ?thesis
    using cam by (simp add: demo_streaming_camera_def)
qed

text \<open>
  C2, amended: the readiness gate has no once-only guard. Every surface-change
  notification received while the camera is open, whether or not the preview is already
  running, runs \<^verbatim>\<open>_on_surface_changed\<close> again from its first line: it calls
  \<^verbatim>\<open>getParameters\<close> and \<^verbatim>\<open>setParameters\<close> with the swapped surface size. When the
  device refuses the parameters, the method raises there, having submitted nothing, and
  the camera holds as many buffers as before. When the device takes them, the method
  submits two more buffers (the camera then holds two more than before), registers the
  preview callback and, the widget having its surface view, calls \<^verbatim>\<open>setPreviewDisplay\<close>
  and \<^verbatim>\<open>startPreview\<close> again and returns; without the surface view attribute it raises
  after registering the callback.
\<close>

theorem surface_change_streams_whenever_open:
  fixes p :: platform and fmt width height :: int and s :: app and cam :: camera
  defines "ps \<equiv> (cam_parameters cam)\<lparr>previewSize := (height, width)\<rparr>"
  defines "buf \<equiv> replicate (nat (py_int (int_times_float (width * height)
                      (float_div8 (getBitsPerPixel p (previewFormat (cam_parameters cam)))))))
                    (CHR 0x00)"
  assumes "android_camera s = Some cam"
  shows "returned (on_surface_changed p fmt width height s) =
           (accepts p ps \<and> android_surface s \<noteq> None)
       \<and> calls_since s (state_of (on_surface_changed p fmt width height s)) =
           (if accepts p ps
            then [GetParameters, SetParameters ps, AddCallbackBuffer buf, AddCallbackBuffer buf,
                  SetPreviewCallbackWithBuffer]
                 @ (case android_surface s of
                      None \<Rightarrow> []
                    | Some surf \<Rightarrow> [SetPreviewDisplay surf, StartPreview])
            else [GetParameters, SetParameters ps])
       \<and> pool (state_of (on_surface_changed p fmt width height s)) =
           (if accepts p ps then pool s + 2 else pool s)"
  using assms(3)
  by (simp add: on_surface_changed_def Let_def log_def pool_def calls_since_def ps_def buf_def
      split: option.splits)

theorem surface_change_streams_whenever_open_witness:
  "android_camera demo_streaming = Some demo_streaming_camera
   \<and> previewing demo_streaming_camera
   \<and> returned (on_surface_changed demo 1 4 2 demo_streaming)
   \<and> calls_since demo_streaming (state_of (on_surface_changed demo 1 4 2 demo_streaming)) =
       [GetParameters, SetParameters (cam_parameters demo_streaming_camera),
        AddCallbackBuffer (replicate 12 (CHR 0x00)), AddCallbackBuffer (replicate 12 (CHR 0x00)),
        SetPreviewCallbackWithBuffer, SetPreviewDisplay (SurfaceView 0), StartPreview]
   \<and> pool (state_of (on_surface_changed demo 1 4 2 demo_streaming)) = 4
   \<and> \<not> returned (on_surface_changed demo_refusing 1 4 2 demo_streaming)
   \<and> calls_since demo_streaming
        (state_of (on_surface_changed demo_refusing 1 4 2 demo_streaming)) =
       [GetParameters, SetParameters (cam_parameters demo_streaming_camera)]
   \<and> pool (state_of (on_surface_changed demo_refusing 1 4 2 demo_streaming)) = 2"
proof -
  have cam: "android_camera demo_streaming = Some demo_streaming_camera"
    by (simp add: demo_streaming_eq)
  have prev: "previewing demo_streaming_camera"
    by (simp add: demo_streaming_camera_def)
  have surf: "android_surface demo_streaming = Some (SurfaceView 0)"
    by (simp add: demo_streaming_eq)
  have two: "pool demo_streaming = 2"
    by (simp add: pool_def cam) (simp add: demo_streaming_camera_def)
  have same: "(cam_parameters demo_streaming_camera)\<lparr>previewSize := (2, 4)\<rparr> =
      cam_parameters demo_streaming_camera"
    by (simp add: demo_streaming_camera_def)
  have bits: "getBitsPerPixel demo (previewFormat (cam_parameters demo_streaming_camera)) = 12"
    by (simp add: demo_def demo_streaming_camera_def)
  have taken: "accepts demo (cam_parameters demo_streaming_camera)"
    by (simp add: demo_def)
  have refused: "\<not> accepts demo_refusing (cam_parameters demo_streaming_camera)"
    by (simp add: demo_refusing_def)
  from surface_change_streams_whenever_open
         [OF cam, where p = demo and fmt = 1 and width = 4 and height = 2]
       surface_change_streams_whenever_open
         [OF cam, where p = demo_refusing and fmt = 1 and width = 4 and height = 2]
  show ?thesis
    using cam prev
    by (simp add: same bits taken refused surf two demo_buffer_length)
qed

text \<open>
  C3: when streaming begins (\<^verbatim>\<open>_on_surface_changed\<close> on an open camera whose device takes
  the preview size), the calls made are, in this order, \<^verbatim>\<open>getParameters\<close>,
  \<^verbatim>\<open>setParameters\<close>, two \<^verbatim>\<open>addCallbackBuffer\<close> with the same buffer,
  \<^verbatim>\<open>setPreviewCallbackWithBuffer\<close>, \<^verbatim>\<open>setPreviewDisplay\<close>, \<^verbatim>\<open>startPreview\<close>: exactly two
  buffers are submitted, both before the preview starts. The length of each is
  \<^verbatim>\<open>int(width * height * (bitsPerPixel / 8.))\<close> in Python's float arithmetic (no bytes
  when that is negative), which is \<open>width * height * bitsPerPixel div 8\<close> whenever the
  product is not negative and below \<open>2 ^ 53\<close>, where doubles are exact. The product
  \<open>width * height\<close> is the same for the surface size and for the swapped preview size.
\<close>

theorem two_sized_buffers_before_preview:
  fixes p :: platform and fmt width height :: int and s :: app and cam :: camera
  defines "bits \<equiv> getBitsPerPixel p (previewFormat (cam_parameters cam))"
  defines "buf \<equiv> replicate (nat (py_int (int_times_float (width * height) (float_div8 bits))))
                     (CHR 0x00)"
  assumes "android_camera s = Some cam"
    and "accepts p ((cam_parameters cam)\<lparr>previewSize := (height, width)\<rparr>)"
    and "android_surface s = Some surf"
  shows "returned (on_surface_changed p fmt width height s)
       \<and> calls_since s (state_of (on_surface_changed p fmt width height s)) =
           [GetParameters,
            SetParameters ((cam_parameters cam)\<lparr>previewSize := (height, width)\<rparr>),
            AddCallbackBuffer buf, AddCallbackBuffer buf,
            SetPreviewCallbackWithBuffer, SetPreviewDisplay surf, StartPreview]
       \<and> submitted (calls_since s (state_of (on_surface_changed p fmt width height s))) = [buf, buf]
       \<and> int (length buf) = max 0 (py_int (int_times_float (width * height) (float_div8 bits)))
       \<and> (0 \<le> width * height * bits \<and> width * height * bits < 2 ^ 53
            \<longrightarrow> int (length buf) = width * height * bits div 8)"
proof -
  have exact: "int (length buf) = width * height * bits div 8"
    if "0 \<le> width * height * bits" and "width * height * bits < 2 ^ 53"
  proof -
    from that have "\<bar>(width * height) * bits\<bar> < 2 ^ 53" by simp
    then have "int_times_float (width * height) (float_div8 bits) = width * height * bits"
      by (rule float_product_exact)
    with that show ?thesis
      by (simp add: buf_def py_int_nonneg)
  qed
  have "buf = replicate (nat (py_int (int_times_float (width * height)
            (float_div8 (getBitsPerPixel p (previewFormat (cam_parameters cam))))))) (CHR 0x00)"
    by (simp add: buf_def bits_def)
  from on_surface_changed_open [OF assms(3) assms(4) assms(5) this, of fmt]
  have "returned (on_surface_changed p fmt width height s)"
    and "calls_since s (state_of (on_surface_changed p fmt width height s)) =
           [GetParameters,
            SetParameters ((cam_parameters cam)\<lparr>previewSize := (height, width)\<rparr>),
            AddCallbackBuffer buf, AddCallbackBuffer buf,
            SetPreviewCallbackWithBuffer, SetPreviewDisplay surf, StartPreview]"
    by simp_all
  moreover have "int (length buf) = max 0 (py_int (int_times_float (width * height) (float_div8 bits)))"
    by (simp add: buf_def)
  ultimately show ?thesis
    using exact by simp
qed

theorem two_sized_buffers_before_preview_witness:
  "android_camera demo_open = Some demo_open_camera
   \<and> (0::int) \<le> 4 * 2 * 12 \<and> (4::int) * 2 * 12 < 2 ^ 53
   \<and> returned (on_surface_changed demo 1 4 2 demo_open)
   \<and> submitted (calls_since demo_open (state_of (on_surface_changed demo 1 4 2 demo_open))) =
       [replicate 12 (CHR 0x00), replicate 12 (CHR 0x00)]
   \<and> length (replicate 12 (CHR 0x00)) = 4 * 2 * 12 div 8"
proof -
  have cam: "android_camera demo_open = Some demo_open_camera"
    by (simp add: demo_open_eq)
  have acc: "accepts demo ((cam_parameters demo_open_camera)\<lparr>previewSize := (2, 4)\<rparr>)"
    by (simp add: demo_def)
  have surf: "android_surface demo_open = Some (SurfaceView 0)"
    by (simp add: demo_open_eq)
  have bits: "getBitsPerPixel demo (previewFormat (cam_parameters demo_open_camera)) = 12"
    by (simp add: demo_def demo_open_camera_def)
  from two_sized_buffers_before_preview [OF cam acc surf, of 1] cam
  show ?thesis
    by (simp add: bits demo_buffer_length)
qed

text \<open>
  C4, as stated, fails. The claim: for every delivered frame the buffer is resubmitted
  exactly once, after the frame handler has finished. On the streaming detector a frame
  on which the decoder throws is delivered, the handler raises out of
  \<^verbatim>\<open>_on_preview_frame\<close>, and no \<^verbatim>\<open>addCallbackBuffer\<close> call is made for it.
\<close>

theorem failed_frame_is_not_resubmitted:
  "android_camera demo_streaming = Some demo_streaming_camera
   \<and> calls_since demo_streaming (step demo demo_streaming (PreviewFrame ''!'')) =
       [GetParameters, Image_new 2 4 ''NV21'', SetData ''!'', Convert ''Y800'', ScanImage]
   \<and> submitted (calls_since demo_streaming (step demo demo_streaming (PreviewFrame ''!''))) = []"
proof -
  have "calls_since demo_streaming (step demo demo_streaming (PreviewFrame ''!'')) =
       [GetParameters, Image_new 2 4 ''NV21'', SetData ''!'', Convert ''Y800'', ScanImage]"
    by (simp add: demo_streaming_eq demo_streaming_camera_def on_preview_frame_def
        detect_qrcode_frame_def demo_def demo_scan_def log_def Let_def calls_since_def)
  then show ?thesis
    by (simp add: demo_streaming_eq)
qed

text \<open>
  C4, amended: \<^verbatim>\<open>_on_preview_frame\<close> returns exactly when the frame handler returns and
  the camera is held. For every frame for which it returns, its calls are the calls of
  the handler (none of them a submission) followed by one \<^verbatim>\<open>addCallbackBuffer\<close> of the
  frame's buffer: the buffer is resubmitted exactly once, after the handler has finished.
  When it raises, no buffer is submitted.
\<close>

theorem buffer_resubmitted_after_handler_returns:
  "returned (on_preview_frame p camera data s) =
     (returned (detect_qrcode_frame p camera data s) \<and> android_camera s \<noteq> None)
   \<and> submitted (calls_since s (state_of (on_preview_frame p camera data s))) =
       (if returned (on_preview_frame p camera data s) then [data] else [])
   \<and> (returned (on_preview_frame p camera data s) \<longrightarrow>
        calls_since s (state_of (on_preview_frame p camera data s)) =
          calls_since s (state_of (detect_qrcode_frame p camera data s))
            @ [AddCallbackBuffer data])"
proof -
  obtain cs where handler: "trace (state_of (detect_qrcode_frame p camera data s)) = trace s @ cs"
    and quiet: "submitted cs = []"
    using detect_appends [of p camera data s] by blast
  have since: "calls_since s (state_of (detect_qrcode_frame p camera data s)) = cs"
    using handler by (rule calls_since_append)
  have calls: "submitted (calls_since s (state_of (on_preview_frame p camera data s))) =
       (if returned (on_preview_frame p camera data s) then [data] else [])
     \<and> (returned (on_preview_frame p camera data s) \<longrightarrow>
        calls_since s (state_of (on_preview_frame p camera data s)) =
          calls_since s (state_of (detect_qrcode_frame p camera data s))
            @ [AddCallbackBuffer data])"
  proof (cases "returned (on_preview_frame p camera data s)")
    case True
    from on_preview_frame_returned(2) [OF True] handler
    have "trace (state_of (on_preview_frame p camera data s)) =
            trace s @ (cs @ [AddCallbackBuffer data])"
      by simp
    then have "calls_since s (state_of (on_preview_frame p camera data s)) =
            cs @ [AddCallbackBuffer data]"
      by (rule calls_since_append)
    with True quiet show ?thesis
      by (simp add: since submitted_append)
  next
    case False
    from on_preview_frame_raised [OF False] handler
    have "calls_since s (state_of (on_preview_frame p camera data s)) = cs"
      by (simp add: calls_since_def)
    with False quiet show ?thesis by simp
  qed
  show ?thesis
    by (intro conjI) (rule on_preview_frame_returns_iff, rule calls [THEN conjunct1],
        rule calls [THEN conjunct2])
qed

theorem buffer_resubmitted_after_handler_returns_witness:
  "returned (on_preview_frame demo demo_streaming_camera ''A'' demo_streaming)
   \<and> calls_since demo_streaming
        (state_of (detect_qrcode_frame demo demo_streaming_camera ''A'' demo_streaming)) =
       [GetParameters, Image_new 2 4 ''NV21'', SetData ''A'', Convert ''Y800'', ScanImage,
        GetSymbols]
   \<and> calls_since demo_streaming
        (state_of (on_preview_frame demo demo_streaming_camera ''A'' demo_streaming)) =
       [GetParameters, Image_new 2 4 ''NV21'', SetData ''A'', Convert ''Y800'', ScanImage,
        GetSymbols, AddCallbackBuffer ''A'']
   \<and> submitted (calls_since demo_streaming
        (state_of (on_preview_frame demo demo_streaming_camera ''A'' demo_streaming))) = [''A'']"
proof -
  have handler: "calls_since demo_streaming
        (state_of (detect_qrcode_frame demo demo_streaming_camera ''A'' demo_streaming)) =
       [GetParameters, Image_new 2 4 ''NV21'', SetData ''A'', Convert ''Y800'', ScanImage,
        GetSymbols]"
    by (simp add: demo_streaming_camera_def detect_qrcode_frame_def demo_def demo_scan_def
        log_def Let_def calls_since_def)
  have ret: "returned (on_preview_frame demo demo_streaming_camera ''A'' demo_streaming)"
    by (simp add: demo_streaming_eq on_preview_frame_def detect_qrcode_frame_def demo_def
        demo_scan_def log_def Let_def)
  from buffer_resubmitted_after_handler_returns
         [where s = demo_streaming and p = demo and camera = demo_streaming_camera
            and data = "''A''"] ret handler
  show ?thesis by simp
qed

text \<open>
  C5: for a frame on which the decoder reports a nonzero count, \<^verbatim>\<open>_detect_qrcode_frame\<close>
  returns and the published list holds one \<^verbatim>\<open>Qrcode\<close> record per symbol of the decoder's
  result set, in the order of its iterator, each with the five fields \<^verbatim>\<open>type\<close>,
  \<^verbatim>\<open>data\<close>, \<^verbatim>\<open>bounds\<close>, \<^verbatim>\<open>quality\<close>, \<^verbatim>\<open>count\<close> read from the getters of that symbol.
\<close>

theorem detected_symbols_published_in_order:
  assumes "decoder_answer p camera data s = Inr (result, syms)" and "result \<noteq> 0"
  shows "returned (detect_qrcode_frame p camera data s)
       \<and> symbols (state_of (detect_qrcode_frame p camera data s)) =
           map (\<lambda>symbol. \<lparr>qr_type = getType symbol, qr_data = getData symbol,
                               qr_bounds = getBounds symbol, qr_quality = getQuality symbol,
                               qr_count = getCount symbol\<rparr>) syms
       \<and> length (symbols (state_of (detect_qrcode_frame p camera data s))) = length syms"
  using assms by (simp add: detect_symbols detect_returned)

theorem detected_symbols_published_in_order_witness:
  "decoder_answer demo demo_streaming_camera ''AB'' demo_streaming =
     Inr (2, [demo_symbol (CHR ''A''), demo_symbol (CHR ''B'')])
   \<and> (2::int) \<noteq> 0
   \<and> returned (detect_qrcode_frame demo demo_streaming_camera ''AB'' demo_streaming)
   \<and> symbols (state_of (detect_qrcode_frame demo demo_streaming_camera ''AB'' demo_streaming)) =
       [\<lparr>qr_type = 64, qr_data = ''A'', qr_bounds = [0, 0, 8, 8], qr_quality = 1, qr_count = 0\<rparr>,
        \<lparr>qr_type = 64, qr_data = ''B'', qr_bounds = [0, 0, 8, 8], qr_quality = 1, qr_count = 0\<rparr>]"
proof -
  have answer: "decoder_answer demo demo_streaming_camera ''AB'' demo_streaming =
      Inr (2, [demo_symbol (CHR ''A''), demo_symbol (CHR ''B'')])"
    by (simp add: demo_answer demo_scan_def)
  have nonzero: "(2::int) \<noteq> 0" by simp
  from detected_symbols_published_in_order [OF answer nonzero] answer
  show ?thesis by (simp add: demo_symbol_def)
qed

text \<open>
  C6: the scanner is configured in \<^verbatim>\<open>__init__\<close> and nowhere else. The construction makes
  four \<^verbatim>\<open>setConfig\<close> calls, in this order: every symbology disabled, QR code enabled,
  horizontal density 3, vertical density 3. Whatever events follow (starts, stops, surface
  changes, frames), the \<^verbatim>\<open>setConfig\<close> calls in the trace and the settings of the scanner
  are still exactly these four.
\<close>

theorem scanner_configured_once_at_construction:
  "trace ZbarQrcodeDetector_init =
     [ImageScanner_new, SetConfig (Literal 0) Config_ENABLE 0,
      SetConfig Symbol_QRCODE Config_ENABLE 1,
      SetConfig (Literal 0) Config_X_DENSITY 3,
      SetConfig (Literal 0) Config_Y_DENSITY 3]
   \<and> configured (trace (run p evs ZbarQrcodeDetector_init)) =
       [(Literal 0, Config_ENABLE, 0), (Symbol_QRCODE, Config_ENABLE, 1),
        (Literal 0, Config_X_DENSITY, 3), (Literal 0, Config_Y_DENSITY, 3)]
   \<and> scanner (run p evs ZbarQrcodeDetector_init) =
       [(Literal 0, Config_ENABLE, 0), (Symbol_QRCODE, Config_ENABLE, 1),
        (Literal 0, Config_X_DENSITY, 3), (Literal 0, Config_Y_DENSITY, 3)]"
  by (simp add: run_configured run_scanner) (simp add: init_eq)

text \<open>
  C7: \<^verbatim>\<open>_on_surface_changed\<close> called with the surface's \<open>(width, height)\<close> on an open
  camera (the device taking the size) sets the preview size to \<open>(height, width)\<close>, the two
  swapped, and leaves the preview format of the device as it was; a frame handled with
  that camera is wrapped in an image of \<open>height\<close> by \<open>width\<close> tagged \<^verbatim>\<open>NV21\<close>. A surface of
  960 by 720 gives a preview of 720 by 960.
\<close>

theorem preview_size_is_surface_size_swapped:
  assumes "android_camera s = Some cam"
    and "accepts p ((cam_parameters cam)\<lparr>previewSize := (height, width)\<rparr>)"
    and "android_surface s = Some surf"
    and "android_camera (state_of (on_surface_changed p fmt width height s)) = Some cam'"
  shows "returned (on_surface_changed p fmt width height s)
       \<and> previewSize (cam_parameters cam') = (height, width)
       \<and> previewFormat (cam_parameters cam') = previewFormat (cam_parameters cam)
       \<and> take 2 (calls_since s (state_of (on_surface_changed p fmt width height s))) =
           [GetParameters,
            SetParameters ((cam_parameters cam)\<lparr>previewSize := (height, width)\<rparr>)]
       \<and> take 2 (calls_since s' (state_of (detect_qrcode_frame p cam' data s'))) =
           [GetParameters, Image_new height width ''NV21'']"
proof -
  from assms(4) on_surface_changed_open [OF assms(1) assms(2) assms(3) refl, of fmt]
  have "returned (on_surface_changed p fmt width height s)"
    and "previewSize (cam_parameters cam') = (height, width)"
    and "previewFormat (cam_parameters cam') = previewFormat (cam_parameters cam)"
    and "take 2 (calls_since s (state_of (on_surface_changed p fmt width height s))) =
           [GetParameters,
            SetParameters ((cam_parameters cam)\<lparr>previewSize := (height, width)\<rparr>)]"
    by auto
  moreover from detect_calls [of p cam' data s'] \<open>previewSize (cam_parameters cam') = (height, width)\<close>
  have "take 2 (calls_since s' (state_of (detect_qrcode_frame p cam' data s'))) =
           [GetParameters, Image_new height width ''NV21'']"
    by auto
  ultimately show ?thesis by simp
qed

theorem preview_size_is_surface_size_swapped_witness:
  "\<exists>cam'. android_camera (state_of (on_surface_changed demo 1 960 720 demo_open)) = Some cam'
     \<and> returned (on_surface_changed demo 1 960 720 demo_open)
     \<and> previewSize (cam_parameters cam') = (720, 960)
     \<and> previewFormat (cam_parameters cam') = 17
     \<and> take 2 (calls_since demo_streaming
                 (state_of (detect_qrcode_frame demo cam' ''A'' demo_streaming))) =
         [GetParameters, Image_new 720 960 ''NV21'']"
proof -
  have cam: "android_camera demo_open = Some demo_open_camera"
    by (simp add: demo_open_eq)
  have acc: "accepts demo ((cam_parameters demo_open_camera)\<lparr>previewSize := (720, 960)\<rparr>)"
    by (simp add: demo_def)
  have surf: "android_surface demo_open = Some (SurfaceView 0)"
    by (simp add: demo_open_eq)
  obtain cam' where cam':
    "android_camera (state_of (on_surface_changed demo 1 960 720 demo_open)) = Some cam'"
    by (simp add: on_surface_changed_open [OF cam acc surf refl])
  have "previewFormat (cam_parameters demo_open_camera) = 17"
    by (simp add: demo_open_camera_def)
  with preview_size_is_surface_size_swapped [OF cam acc surf cam', of demo_streaming "''A''"] cam'
  show ?thesis by simp
qed

text \<open>
  C8: \<^verbatim>\<open>start\<close> on a camera that is already open (streaming or not yet) returns the state
  unchanged, for the camera widget and for the detector; \<^verbatim>\<open>stop\<close> on a closed camera
  returns the state unchanged (for the detector, whose \<^verbatim>\<open>stop\<close> also empties \<^verbatim>\<open>symbols\<close>,
  when no symbols are published, as is the case whenever the camera is closed in a
  sequential run); stopping twice is the same as stopping once.
\<close>

theorem redundant_lifecycle_calls:
  assumes "android_camera s \<noteq> None" and "android_camera t = None"
  shows "AndroidCamera_start p s = Returned s
       \<and> ZbarQrcodeDetector_start p s = Returned s
       \<and> AndroidCamera_stop t = t
       \<and> (symbols t = [] \<longrightarrow> ZbarQrcodeDetector_stop t = t)
       \<and> AndroidCamera_stop (AndroidCamera_stop u) = AndroidCamera_stop u
       \<and> ZbarQrcodeDetector_stop (ZbarQrcodeDetector_stop u) = ZbarQrcodeDetector_stop u"
proof -
  have closed: "AndroidCamera_stop x = x" if "android_camera x = None" for x
    using that by (rule AndroidCamera_stop_closed)
  have "ZbarQrcodeDetector_stop (ZbarQrcodeDetector_stop u) = ZbarQrcodeDetector_stop u"
  proof -
    let ?v = "ZbarQrcodeDetector_stop u"
    have "symbols ?v = []" and cam: "android_camera ?v = None"
      by (simp_all add: ZbarQrcodeDetector_stop_def AndroidCamera_stop_frame)
    then have "?v\<lparr>symbols := []\<rparr> = ?v"
      by (simp add: symbols_already_empty)
    then show ?thesis
      using closed [OF cam] by (simp add: ZbarQrcodeDetector_stop_def [of ?v])
  qed
  with assms show ?thesis
    by (simp add: AndroidCamera_start_def ZbarQrcodeDetector_start_def closed
        AndroidCamera_stop_frame symbols_already_empty ZbarQrcodeDetector_stop_def [of t])
qed

theorem redundant_lifecycle_calls_witness:
  "android_camera demo_streaming \<noteq> None
   \<and> android_camera ZbarQrcodeDetector_init = None
   \<and> symbols ZbarQrcodeDetector_init = []
   \<and> AndroidCamera_start demo demo_streaming = Returned demo_streaming
   \<and> ZbarQrcodeDetector_start demo demo_streaming = Returned demo_streaming
   \<and> AndroidCamera_stop ZbarQrcodeDetector_init = ZbarQrcodeDetector_init
   \<and> ZbarQrcodeDetector_stop ZbarQrcodeDetector_init = ZbarQrcodeDetector_init
   \<and> ZbarQrcodeDetector_stop (ZbarQrcodeDetector_stop demo_streaming) =
       ZbarQrcodeDetector_stop demo_streaming"
proof -
  have open_cam: "android_camera demo_streaming \<noteq> None"
    by (simp add: demo_streaming_eq)
  have closed_cam: "android_camera ZbarQrcodeDetector_init = None"
    and no_symbols: "symbols ZbarQrcodeDetector_init = []"
    by (simp_all add: init_eq)
  from redundant_lifecycle_calls [OF open_cam closed_cam, of demo demo_streaming]
  show ?thesis
    using open_cam closed_cam no_symbols by blast
qed




text \<open>
  C10: after \<^verbatim>\<open>ZbarQrcodeDetector.stop\<close> the published list is empty, whatever it held
  before, and the camera is closed; the camera is stopped in a state whose list is
  already empty.
\<close>

theorem stop_clears_symbols:
  "symbols (ZbarQrcodeDetector_stop s) = []
   \<and> android_camera (ZbarQrcodeDetector_stop s) = None
   \<and> ZbarQrcodeDetector_stop s = AndroidCamera_stop (s\<lparr>symbols := []\<rparr>)"
  by (simp add: ZbarQrcodeDetector_stop_def AndroidCamera_stop_frame)

end
